theory Spec2Isabelle
  imports Complex_Main "HOL-Library.Sublist" "HOL-Library.Multiset"
begin

section \<open>Python primitives used by the evaluators and the runner\<close>

text \<open>
  The three programs are Python scripts. Python's \<open>float\<close> values are modelled as
  \<^typ>\<open>real\<close> (rounding, \<open>inf\<close> and \<open>nan\<close> are outside the model), its \<open>str\<close> as
  \<^typ>\<open>string\<close>, and every exception that the modelled code can raise is a value of
  \<open>error\<close>; a function that may raise returns \<open>error + 'a\<close> with \<open>Inl\<close> the exception.
\<close>

datatype error =
    IndexError
  | ValueError
  | KeyError
  | TypeError
  | ZeroDivisionError
  | JSONDecodeError
  | PackageNotFoundError
  | OSError
  | CalledProcessError int
  | TimeoutExpired
  | OtherException string

text \<open>\<open>sub in s\<close> on strings: \<open>sub\<close> occurs in \<open>s\<close> as a contiguous run.\<close>

fun str_in :: "string \<Rightarrow> string \<Rightarrow> bool" where
  "str_in sub [] = (sub = [])"
| "str_in sub (c # cs) = (prefix sub (c # cs) \<or> str_in sub cs)"

text \<open>
  \<open>s.split(sep)\<close> for a non-empty separator: the pieces between the occurrences of
  \<open>sep\<close>, found from the left without overlap. \<open>acc\<close> holds the current piece,
  reversed. Both call sites pass a literal, non-empty separator (Python raises
  ValueError on an empty one).
\<close>

fun split_at :: "string \<Rightarrow> string \<Rightarrow> string \<Rightarrow> string list" where
  "split_at sep acc [] = [rev acc]"
| "split_at sep acc (c # cs) =
     (if sep \<noteq> [] \<and> prefix sep (c # cs)
      then rev acc # split_at sep [] (drop (length sep - 1) cs)
      else split_at sep (c # acc) cs)"

definition str_split :: "string \<Rightarrow> string \<Rightarrow> string list" where
  "str_split sep s = split_at sep [] s"

text \<open>\<open>str(n)\<close> for a non-negative integer: its decimal digits.\<close>

definition digit_char :: "nat \<Rightarrow> char" where
  "digit_char d = ''0123456789'' ! d"

fun str_nat :: "nat \<Rightarrow> string" where
  "str_nat n = (if n < 10 then [digit_char n] else str_nat (n div 10) @ [digit_char (n mod 10)])"

text \<open>
  The value of an ASCII digit, and of a string of ASCII digits read from the left.
  \<open>s.isdigit()\<close> holds of a non-empty string of digits, and \<open>int(s)\<close> is then its
  decimal value (digits outside ASCII are outside the model).
\<close>

definition digit_of :: "char \<Rightarrow> nat option" where
  "digit_of c = (let n = of_char c in if 48 \<le> n \<and> n < (58::nat) then Some (n - 48) else None)"

fun digits_acc :: "nat \<Rightarrow> string \<Rightarrow> nat option" where
  "digits_acc a [] = Some a"
| "digits_acc a (c # cs) =
     (case digit_of c of None \<Rightarrow> None | Some d \<Rightarrow> digits_acc (10 * a + d) cs)"

definition str_isdigit :: "string \<Rightarrow> bool" where
  "str_isdigit s = (s \<noteq> [] \<and> list_all (\<lambda>c. digit_of c \<noteq> None) s)"

definition int_of_digits :: "string \<Rightarrow> nat" where
  "int_of_digits s = (case digits_acc 0 s of Some n \<Rightarrow> n | None \<Rightarrow> 0)"

text \<open>\<open>str(i)\<close> for an integer.\<close>

definition str_int :: "int \<Rightarrow> string" where
  "str_int i = (if i < 0 then ''-'' @ str_nat (nat (- i)) else str_nat (nat i))"

text \<open>
  \<open>s.replace(old, new)\<close> for a non-empty \<open>old\<close>: every occurrence, found from the left
  without overlap, is replaced.
\<close>

fun str_replace :: "string \<Rightarrow> string \<Rightarrow> string \<Rightarrow> string" where
  "str_replace old new [] = []"
| "str_replace old new (c # cs) =
     (if old \<noteq> [] \<and> prefix old (c # cs)
      then new @ str_replace old new (drop (length old - 1) cs)
      else c # str_replace old new cs)"

text \<open>
  \<open>os.path.join(a, b)\<close> and \<open>os.path.dirname(p)\<close> of \<open>posixpath\<close>: an absolute \<open>b\<close>
  replaces \<open>a\<close>, otherwise one slash separates the two; the directory name is the part
  up to the last slash, without trailing slashes unless it consists of slashes only.
\<close>

definition os_path_join :: "string \<Rightarrow> string \<Rightarrow> string" where
  "os_path_join a b =
     (if prefix ''/'' b then b
      else if a = [] \<or> last a = CHR ''/'' then a @ b
      else a @ ''/'' @ b)"

definition rstrip_slash :: "string \<Rightarrow> string" where
  "rstrip_slash s = rev (dropWhile (\<lambda>c. c = CHR ''/'') (rev s))"

definition os_path_dirname :: "string \<Rightarrow> string" where
  "os_path_dirname p =
     (let head = rev (dropWhile (\<lambda>c. c \<noteq> CHR ''/'') (rev p))
      in if head \<noteq> [] \<and> \<not> list_all (\<lambda>c. c = CHR ''/'') head then rstrip_slash head else head)"

text \<open>
  \<open>Path(a) / b\<close> of \<open>pathlib\<close>, as a string, for \<open>a\<close> in \<open>pathlib\<close>'s normal form (no
  repeated or trailing slash, no \<open>.\<close> segment) and \<open>b\<close> a single segment or an absolute
  path: the paths the programs build from a dataset root, a category and a directory name.
\<close>

definition path_div :: "string \<Rightarrow> string \<Rightarrow> string" where
  "path_div a b = (if prefix ''/'' b then b else a @ ''/'' @ b)"

text \<open>
  The part of the file system the dispatcher and the task loader look at: the entries of
  a directory in enumeration order (\<open>None\<close> when listing it raises), and
  \<open>os.path.exists\<close>.
\<close>

record disk =
  listdir :: "string \<Rightarrow> string list option"
  path_exists :: "string \<Rightarrow> bool"

text \<open>
  A decoded JSON document, as \<open>json.load\<close> returns it. An object lists its members in
  document order; \<open>json.load\<close> keeps the last value of a repeated key.
\<close>

datatype json =
    JNull
  | JBool bool
  | JNum real
  | JStr string
  | JArr "json list"
  | JObj "(string \<times> json) list"

text \<open>\<open>v[key]\<close> with a string key: only a dict can be subscripted by a string.\<close>

fun subscript :: "json \<Rightarrow> string \<Rightarrow> error + json" where
  "subscript (JObj kvs) k = (case map_of (rev kvs) k of None \<Rightarrow> Inl KeyError | Some v \<Rightarrow> Inr v)"
| "subscript v k = Inl TypeError"

text \<open>
  \<open>v * 20\<close>: a number is multiplied, a bool counts as 0 or 1, a string or a list is
  repeated (and is then not a number), \<open>None\<close> and a dict raise TypeError.
\<close>

datatype pyval = Num real | NonNum

fun times20 :: "json \<Rightarrow> error + pyval" where
  "times20 (JNum x) = Inr (Num (x * 20))"
| "times20 (JBool b) = Inr (Num (if b then 20 else 0))"
| "times20 (JStr s) = Inr NonNum"
| "times20 (JArr vs) = Inr NonNum"
| "times20 JNull = Inl TypeError"
| "times20 (JObj kvs) = Inl TypeError"

section \<open>The round aggregator: \<open>evaluators/autopresent/gather.py\<close>\<close>

text \<open>The two metric dicts, with their four fixed keys each.\<close>

record ref_eval =
  re_match :: real
  re_text :: real
  re_color :: real
  re_position :: real

record ref_free_eval =
  rf_text :: real
  rf_image :: real
  rf_layout :: real
  rf_color :: real

definition zero_ref_eval :: ref_eval where
  "zero_ref_eval = \<lparr>re_match = 0, re_text = 0, re_color = 0, re_position = 0\<rparr>"

definition zero_ref_free_eval :: ref_free_eval where
  "zero_ref_free_eval = \<lparr>rf_text = 0, rf_image = 0, rf_layout = 0, rf_color = 0\<rparr>"

text \<open>
  What \<open>gather_results\<close> finds in one round directory
  \<open>output/autopresent/<test_id>/<name>/slide_<k>/<round>\<close>: whether the directory exists,
  the text of \<open>ref_based.txt\<close> and the outcome of \<open>json.load\<close> on \<open>ref_free.json\<close>, each
  \<open>None\<close> when \<open>os.path.exists\<close> says the file is not there.
\<close>

datatype json_load = Malformed | Loaded json

record round_files =
  round_dir_exists :: bool
  ref_based_txt :: "string option"
  ref_free_json :: "json_load option"

definition no_round :: round_files where
  "no_round = \<lparr>round_dir_exists = False, ref_based_txt = None, ref_free_json = None\<rparr>"

text \<open>
  \<open>float(result.split(': ')[1])\<close>: the piece after the first \<open>': '\<close> (up to the next
  one), read as a float. \<open>pyfloat\<close> is Python's builtin \<open>float\<close> on strings, \<open>None\<close>
  where it raises ValueError.
\<close>

definition float_field :: "(string \<Rightarrow> real option) \<Rightarrow> string \<Rightarrow> error + real" where
  "float_field pyfloat result =
     (case str_split '': '' result of
        a # s # rest \<Rightarrow> (case pyfloat s of None \<Rightarrow> Inl ValueError | Some v \<Rightarrow> Inr v)
      | _ \<Rightarrow> Inl IndexError)"

text \<open>One pass of the loop over the lines of \<open>ref_based.txt\<close> (lines 58 to 66).\<close>

definition parse_result_line ::
  "(string \<Rightarrow> real option) \<Rightarrow> string \<Rightarrow> ref_eval \<Rightarrow> error + ref_eval" where
  "parse_result_line pyfloat result r =
     (if str_in ''match'' result then
        (case float_field pyfloat result of Inl e \<Rightarrow> Inl e | Inr v \<Rightarrow> Inr (r\<lparr>re_match := v\<rparr>))
      else if str_in ''text'' result then
        (case float_field pyfloat result of Inl e \<Rightarrow> Inl e | Inr v \<Rightarrow> Inr (r\<lparr>re_text := v\<rparr>))
      else if str_in ''color'' result then
        (case float_field pyfloat result of Inl e \<Rightarrow> Inl e | Inr v \<Rightarrow> Inr (r\<lparr>re_color := v\<rparr>))
      else if str_in ''position'' result then
        (case float_field pyfloat result of Inl e \<Rightarrow> Inl e | Inr v \<Rightarrow> Inr (r\<lparr>re_position := v\<rparr>))
      else Inr r)"

fun parse_result_lines ::
  "(string \<Rightarrow> real option) \<Rightarrow> string list \<Rightarrow> ref_eval \<Rightarrow> error + ref_eval" where
  "parse_result_lines pyfloat [] r = Inr r"
| "parse_result_lines pyfloat (result # results) r =
     (case parse_result_line pyfloat result r of
        Inl e \<Rightarrow> Inl e
      | Inr r' \<Rightarrow> parse_result_lines pyfloat results r')"

definition read_ref_based :: "(string \<Rightarrow> real option) \<Rightarrow> string \<Rightarrow> error + ref_eval" where
  "read_ref_based pyfloat content =
     parse_result_lines pyfloat (str_split [CHR 0x0A] content) zero_ref_eval"

text \<open>\<open>current_ref_free_eval_result[key]['score'] * 20\<close> (lines 71 to 74).\<close>

definition scaled_score :: "json \<Rightarrow> string \<Rightarrow> error + pyval" where
  "scaled_score doc key =
     (case subscript doc key of
        Inl e \<Rightarrow> Inl e
      | Inr entry \<Rightarrow> (case subscript entry ''score'' of Inl e \<Rightarrow> Inl e | Inr s \<Rightarrow> times20 s))"

text \<open>
  The four assignments of lines 71 to 74, in order, and then the sum of lines 77 to 80,
  which raises TypeError when one of the four values is not a number.
\<close>

definition read_ref_free :: "json \<Rightarrow> error + ref_free_eval" where
  "read_ref_free doc =
     (case scaled_score doc ''text'' of Inl e \<Rightarrow> Inl e | Inr t \<Rightarrow>
      case scaled_score doc ''image'' of Inl e \<Rightarrow> Inl e | Inr i \<Rightarrow>
      case scaled_score doc ''layout'' of Inl e \<Rightarrow> Inl e | Inr l \<Rightarrow>
      case scaled_score doc ''color'' of Inl e \<Rightarrow> Inl e | Inr c \<Rightarrow>
      (case (t, i, l, c) of
         (Num t', Num i', Num l', Num c') \<Rightarrow>
           Inr \<lparr>rf_text = t', rf_image = i', rf_layout = l', rf_color = c'\<rparr>
       | _ \<Rightarrow> Inl TypeError))"

definition round_score :: "ref_eval \<Rightarrow> ref_free_eval \<Rightarrow> real" where
  "round_score re rf =
     (re_match re + re_text re + re_color re + re_position re +
      rf_text rf + rf_image rf + rf_layout rf + rf_color rf) / 8"

text \<open>
  The body of the loop over rounds up to the score (lines 41 to 80): \<open>None\<close> when the
  round is passed over, otherwise the two metric dicts and the round's score.
\<close>

definition eval_round ::
  "(string \<Rightarrow> real option) \<Rightarrow> round_files \<Rightarrow> error + (ref_eval \<times> ref_free_eval \<times> real) option" where
  "eval_round pyfloat fs =
     (if \<not> round_dir_exists fs then Inr None
      else case (ref_based_txt fs, ref_free_json fs) of
        (Some content, Some loaded) \<Rightarrow>
          (case read_ref_based pyfloat content of
             Inl e \<Rightarrow> Inl e
           | Inr re \<Rightarrow>
             (case loaded of
                Malformed \<Rightarrow> Inl JSONDecodeError
              | Loaded doc \<Rightarrow>
                (case read_ref_free doc of
                   Inl e \<Rightarrow> Inl e
                 | Inr rf \<Rightarrow> Inr (Some (re, rf, round_score re rf)))))
      | _ \<Rightarrow> Inr None)"

text \<open>The four \<open>best_round_*\<close> variables of lines 34 to 37.\<close>

record best_round =
  best_round_score :: real
  best_round_ref_eval :: "ref_eval option"
  best_round_ref_free_eval :: "ref_free_eval option"
  best_round_num :: "nat option"

definition best_round_init :: best_round where
  "best_round_init =
     \<lparr>best_round_score = - 1, best_round_ref_eval = None,
      best_round_ref_free_eval = None, best_round_num = None\<rparr>"

text \<open>Lines 83 to 87: the round replaces the incumbent on a strictly greater score.\<close>

definition update_best :: "nat \<Rightarrow> ref_eval \<times> ref_free_eval \<times> real \<Rightarrow> best_round \<Rightarrow> best_round" where
  "update_best round_num scored b =
     (case scored of (re, rf, score) \<Rightarrow>
        if score > best_round_score b
        then \<lparr>best_round_score = score, best_round_ref_eval = Some re,
              best_round_ref_free_eval = Some rf, best_round_num = Some round_num\<rparr>
        else b)"

text \<open>The loop over rounds (line 40), on the list of round numbers still to visit.\<close>

fun scan_rounds ::
  "(string \<Rightarrow> real option) \<Rightarrow> (nat \<Rightarrow> round_files) \<Rightarrow> nat list \<Rightarrow> best_round \<Rightarrow> error + best_round" where
  "scan_rounds pyfloat rounds [] b = Inr b"
| "scan_rounds pyfloat rounds (round_num # rest) b =
     (case eval_round pyfloat (rounds round_num) of
        Inl e \<Rightarrow> Inl e
      | Inr None \<Rightarrow> scan_rounds pyfloat rounds rest b
      | Inr (Some scored) \<Rightarrow> scan_rounds pyfloat rounds rest (update_best round_num scored b))"

definition find_best_round ::
  "(string \<Rightarrow> real option) \<Rightarrow> (nat \<Rightarrow> round_files) \<Rightarrow> error + best_round" where
  "find_best_round pyfloat rounds = scan_rounds pyfloat rounds [1..<11] best_round_init"

text \<open>The running totals of lines 16 to 19.\<close>

record totals =
  ref_eval_result :: ref_eval
  ref_free_eval_result :: ref_free_eval
  fail_num :: nat
  total_num :: nat

definition totals_init :: totals where
  "totals_init =
     \<lparr>ref_eval_result = zero_ref_eval, ref_free_eval_result = zero_ref_free_eval,
      fail_num = 0, total_num = 0\<rparr>"

definition add_ref_eval :: "ref_eval \<Rightarrow> ref_eval \<Rightarrow> ref_eval" where
  "add_ref_eval a b =
     \<lparr>re_match = re_match a + re_match b, re_text = re_text a + re_text b,
      re_color = re_color a + re_color b, re_position = re_position a + re_position b\<rparr>"

definition add_ref_free_eval :: "ref_free_eval \<Rightarrow> ref_free_eval \<Rightarrow> ref_free_eval" where
  "add_ref_free_eval a b =
     \<lparr>rf_text = rf_text a + rf_text b, rf_image = rf_image a + rf_image b,
      rf_layout = rf_layout a + rf_layout b, rf_color = rf_color a + rf_color b\<rparr>"

text \<open>
  Lines 90 to 128 for one slide, given the outcome of the scan: the best round's
  metrics are added to the totals, or the slide is a failure; the slide is counted
  either way. The old baseline fallback is commented out in the source.
\<close>

definition add_slide :: "best_round \<Rightarrow> totals \<Rightarrow> totals" where
  "add_slide b t =
     (case (best_round_num b, best_round_ref_eval b, best_round_ref_free_eval b) of
        (Some n, Some re, Some rf) \<Rightarrow>
          t\<lparr>ref_eval_result := add_ref_eval (ref_eval_result t) re,
            ref_free_eval_result := add_ref_free_eval (ref_free_eval_result t) rf,
            total_num := total_num t + 1\<rparr>
      | _ \<Rightarrow> t\<lparr>fail_num := fail_num t + 1, total_num := total_num t + 1\<rparr>)"

definition gather_slide ::
  "(string \<Rightarrow> real option) \<Rightarrow> (nat \<Rightarrow> round_files) \<Rightarrow> totals \<Rightarrow> error + totals" where
  "gather_slide pyfloat rounds t =
     (case find_best_round pyfloat rounds of Inl e \<Rightarrow> Inl e | Inr b \<Rightarrow> Inr (add_slide b t))"

text \<open>The loop over the slides of one presentation (line 30).\<close>

fun gather_slides ::
  "(string \<Rightarrow> real option) \<Rightarrow> (nat \<Rightarrow> nat \<Rightarrow> round_files) \<Rightarrow> nat list \<Rightarrow> totals \<Rightarrow> error + totals" where
  "gather_slides pyfloat slides [] t = Inr t"
| "gather_slides pyfloat slides (slide_num # rest) t =
     (case gather_slide pyfloat (slides slide_num) t of
        Inl e \<Rightarrow> Inl e
      | Inr t' \<Rightarrow> gather_slides pyfloat slides rest t')"

text \<open>
  The reference presentation \<open>data/autopresent/examples/<name>/<name>.pptx\<close>: absent,
  not readable by \<open>Presentation\<close>, or a deck with so many slides.
\<close>

datatype pptx = NoPptx | BadPptx | Deck nat

text \<open>
  The files \<open>gather_results\<close> reads for one test id: the reference presentation of each
  category and the round directories of each slide of each category.
\<close>

record tree =
  reference :: "string \<Rightarrow> pptx"
  rounds_of :: "string \<Rightarrow> nat \<Rightarrow> nat \<Rightarrow> round_files"

text \<open>The loop over the categories (line 21).\<close>

fun gather_names ::
  "(string \<Rightarrow> real option) \<Rightarrow> tree \<Rightarrow> string list \<Rightarrow> totals \<Rightarrow> error + totals" where
  "gather_names pyfloat tr [] t = Inr t"
| "gather_names pyfloat tr (name # rest) t =
     (case reference tr name of
        NoPptx \<Rightarrow> gather_names pyfloat tr rest t
      | BadPptx \<Rightarrow> Inl PackageNotFoundError
      | Deck pages_num \<Rightarrow>
          (case gather_slides pyfloat (rounds_of tr name) [1..<pages_num + 1] t of
             Inl e \<Rightarrow> Inl e
           | Inr t' \<Rightarrow> gather_names pyfloat tr rest t'))"

definition all_names :: "string list" where
  "all_names =
     [''art_photos'', ''business'', ''design'', ''entrepreneur'', ''environment'',
      ''food'', ''marketing'', ''social_media'', ''technology'']"

definition selected_names :: "string \<Rightarrow> string list" where
  "selected_names slide_name = (if slide_name = ''all'' then all_names else [slide_name])"

definition gather_totals :: "(string \<Rightarrow> real option) \<Rightarrow> tree \<Rightarrow> string \<Rightarrow> error + totals" where
  "gather_totals pyfloat tr slide_name =
     gather_names pyfloat tr (selected_names slide_name) totals_init"

text \<open>Lines 131 to 135: the sums become averages when at least one slide was counted.\<close>

definition div_ref_eval :: "ref_eval \<Rightarrow> nat \<Rightarrow> ref_eval" where
  "div_ref_eval a n =
     \<lparr>re_match = re_match a / real n, re_text = re_text a / real n,
      re_color = re_color a / real n, re_position = re_position a / real n\<rparr>"

definition div_ref_free_eval :: "ref_free_eval \<Rightarrow> nat \<Rightarrow> ref_free_eval" where
  "div_ref_free_eval a n =
     \<lparr>rf_text = rf_text a / real n, rf_image = rf_image a / real n,
      rf_layout = rf_layout a / real n, rf_color = rf_color a / real n\<rparr>"

definition averaged :: "totals \<Rightarrow> totals" where
  "averaged t =
     (if total_num t > 0
      then t\<lparr>ref_eval_result := div_ref_eval (ref_eval_result t) (total_num t),
             ref_free_eval_result := div_ref_free_eval (ref_free_eval_result t) (total_num t)\<rparr>
      else t)"

text \<open>
  Lines 137 to 151: the success rate \<open>(total_num - fail_num) / total_num\<close> is computed
  for printing before the overall score, and Python's \<open>/\<close> raises ZeroDivisionError on
  a zero divisor.
\<close>

definition success_rate :: "totals \<Rightarrow> error + real" where
  "success_rate t =
     (if total_num t = 0 then Inl ZeroDivisionError
      else Inr ((real (total_num t) - real (fail_num t)) / real (total_num t)))"

definition report :: "totals \<Rightarrow> error + (ref_eval \<times> ref_free_eval \<times> real)" where
  "report t =
     (case success_rate t of
        Inl e \<Rightarrow> Inl e
      | Inr rate \<Rightarrow>
          Inr (ref_eval_result t, ref_free_eval_result t,
               round_score (ref_eval_result t) (ref_free_eval_result t)))"

definition gather_results ::
  "(string \<Rightarrow> real option) \<Rightarrow> tree \<Rightarrow> string \<Rightarrow> error + (ref_eval \<times> ref_free_eval \<times> real)" where
  "gather_results pyfloat tr slide_name =
     (case gather_totals pyfloat tr slide_name of
        Inl e \<Rightarrow> Inl e
      | Inr t \<Rightarrow> report (averaged t))"

subsection \<open>Notions used to state the aggregator's properties\<close>





subsection \<open>Sample inputs\<close>

text \<open>
  A stand-in for \<open>float\<close> on the sample reports below: it agrees with Python's \<open>float\<close>
  on the non-empty strings of ASCII digits and rejects every other string. The
  properties are proved for an arbitrary \<open>pyfloat\<close>; this one only runs the examples.
\<close>

definition sample_float :: "string \<Rightarrow> real option" where
  "sample_float s = (if s = [] then None else map_option real (digits_acc 0 s))"

text \<open>A reference-based report with the four labelled lines, and a reference-free document.\<close>

definition sample_txt :: "string \<Rightarrow> string \<Rightarrow> string \<Rightarrow> string \<Rightarrow> string" where
  "sample_txt m t c p =
     ''match: '' @ m @ [CHR 0x0A] @ ''text: '' @ t @ [CHR 0x0A] @
     ''color: '' @ c @ [CHR 0x0A] @ ''position: '' @ p"

definition sample_doc :: "real \<Rightarrow> real \<Rightarrow> real \<Rightarrow> real \<Rightarrow> json" where
  "sample_doc t i l c =
     JObj [(''text'', JObj [(''score'', JNum t)]), (''image'', JObj [(''score'', JNum i)]),
           (''layout'', JObj [(''score'', JNum l)]), (''color'', JObj [(''score'', JNum c)])]"

definition sample_round :: "string \<Rightarrow> json \<Rightarrow> round_files" where
  "sample_round content doc =
     \<lparr>round_dir_exists = True, ref_based_txt = Some content, ref_free_json = Some (Loaded doc)\<rparr>"

text \<open>Rounds 1, 2 and 3 with the scores 70, 85 and 85; no other round directory.\<close>

definition tie_rounds :: "nat \<Rightarrow> round_files" where
  "tie_rounds n =
     (if n = 1 then sample_round (sample_txt ''70'' ''70'' ''70'' ''70'') (sample_doc 3.5 3.5 3.5 3.5)
      else if n = 2 then sample_round (sample_txt ''85'' ''85'' ''85'' ''85'') (sample_doc 4.25 4.25 4.25 4.25)
      else if n = 3 then sample_round (sample_txt ''90'' ''80'' ''85'' ''85'') (sample_doc 4.25 4.25 4.25 4.25)
      else no_round)"


text \<open>Round 2 has the text report and no reference-free document.\<close>

definition half_round :: round_files where
  "half_round =
     \<lparr>round_dir_exists = True, ref_based_txt = Some (sample_txt ''90'' ''90'' ''90'' ''90''),
      ref_free_json = None\<rparr>"


definition empty_tree :: tree where
  "empty_tree = \<lparr>reference = (\<lambda>name. NoPptx), rounds_of = (\<lambda>name slide_num round_num. no_round)\<rparr>"

subsection \<open>Notions used to state the parser's properties\<close>




section \<open>The evaluation dispatcher: \<open>evaluators/autopresent/evaluate.py\<close>\<close>

text \<open>The two scorer invocations, with the arguments that name files.\<close>

datatype command =
    PageEval (reference_pptx: string) (generated_pptx: string) (reference_page: string)
      (output_path: string)
  | ReferenceFreeEval (image_path: string) (response_path: string)

text \<open>
  The body of the loop over round directories (lines 30 to 60) for the directory name
  \<open>file\<close>: nothing when the round has no \<open>refine.pptx\<close>, otherwise the reference-based
  scorer and, when the preview image exists, the reference-free scorer.
\<close>

definition round_commands :: "disk \<Rightarrow> string \<Rightarrow> string \<Rightarrow> nat \<Rightarrow> string \<Rightarrow> command list" where
  "round_commands fs slide_name refine_path index file =
     (let pptx_path = os_path_join refine_path (file @ ''/refine.pptx'')
      in if \<not> path_exists fs pptx_path then []
         else
           (let ref_eval_path = os_path_join (os_path_dirname pptx_path) ''ref_based.txt'';
                jpg_path = str_replace ''.pptx'' ''.jpg'' pptx_path;
                ref_free_eval_path = os_path_join (os_path_dirname pptx_path) ''ref_free.txt''
            in PageEval
                 (''data/autopresent/examples/'' @ slide_name @ ''/slide_'' @ str_nat index
                    @ ''/slide.pptx'')
                 pptx_path (str_nat index) ref_eval_path
               # (if path_exists fs jpg_path
                  then [ReferenceFreeEval jpg_path ref_free_eval_path] else [])))"

text \<open>
  \<open>evaluate_single_slide\<close>: the scorer invocations it makes, in order. The round
  directories are those with an all-digit name, by descending number.
\<close>

definition evaluate_single_slide :: "disk \<Rightarrow> string \<Rightarrow> nat \<Rightarrow> command list" where
  "evaluate_single_slide fs slide_dirs index =
     (let slide_name = last (str_split ''/'' slide_dirs);
          refine_path = path_div slide_dirs (''slide_'' @ str_nat index)
      in case listdir fs refine_path of
           None \<Rightarrow> []
         | Some entries \<Rightarrow>
             (let files = filter str_isdigit entries;
                  files = rev (sort_key int_of_digits (rev files))
              in concat (map (round_commands fs slide_name refine_path index) files)))"

text \<open>The directory \<open>main\<close> of \<open>evaluate.py\<close> passes for a test id and a category.\<close>

definition evaluate_slide_dirs :: "string \<Rightarrow> string \<Rightarrow> string" where
  "evaluate_slide_dirs test_id slide_name = ''output/autopresent/'' @ test_id @ ''/'' @ slide_name"

text \<open>The paths \<open>gather_results\<close> builds for a round (lines 31, 41, 46 and 47).\<close>

definition gather_round_dir :: "string \<Rightarrow> string \<Rightarrow> nat \<Rightarrow> nat \<Rightarrow> string" where
  "gather_round_dir test_id name slide_num round_num =
     os_path_join
       (os_path_join (os_path_join (''output/autopresent/'' @ test_id) name)
          (''slide_'' @ str_nat slide_num))
       (str_nat round_num)"

definition gather_ref_eval_path :: "string \<Rightarrow> string \<Rightarrow> nat \<Rightarrow> nat \<Rightarrow> string" where
  "gather_ref_eval_path test_id name slide_num round_num =
     os_path_join (gather_round_dir test_id name slide_num round_num) ''ref_based.txt''"

definition gather_ref_free_eval_path :: "string \<Rightarrow> string \<Rightarrow> nat \<Rightarrow> nat \<Rightarrow> string" where
  "gather_ref_free_eval_path test_id name slide_num round_num =
     os_path_join (gather_round_dir test_id name slide_num round_num) ''ref_free.json''"

text \<open>
  A sample output tree: slide 1 of \<open>business\<close> under the test id \<open>T\<close> has the round
  directory \<open>1\<close> with a generated presentation and its preview image.
\<close>

definition sample_output :: disk where
  "sample_output =
     \<lparr>listdir = (\<lambda>d. if d = ''output/autopresent/T/business/slide_1'' then Some [''1''] else None),
      path_exists = (\<lambda>p. p = ''output/autopresent/T/business/slide_1/1/refine.pptx''
                        \<or> p = ''output/autopresent/T/business/slide_1/1/refine.jpg'')\<rparr>"

section \<open>The runner: \<open>runners/autopresent.py\<close>\<close>

subsection \<open>The task loader\<close>

record task_config =
  task_name :: string
  task_dir :: string
  init_code_path :: string
  init_image_path :: string
  target_description_path :: string

text \<open>\<open>current_path.glob("slide_*")\<close>: the entries whose name starts with \<open>slide_\<close>.\<close>

definition glob_slide :: "disk \<Rightarrow> string \<Rightarrow> string list" where
  "glob_slide fs current_path =
     (case listdir fs current_path of
        None \<Rightarrow> []
      | Some entries \<Rightarrow> map (path_div current_path) (filter (prefix ''slide_'') entries))"

text \<open>Lines 43 to 52: the candidate directories, each with its category.\<close>

definition task_dirs :: "disk \<Rightarrow> string \<Rightarrow> string \<Rightarrow> string option \<Rightarrow> (string \<times> string) list" where
  "task_dirs fs base_path name task_id =
     (case task_id of
        Some tid \<Rightarrow> [(path_div (path_div base_path name) (''slides_'' @ tid), name)]
      | None \<Rightarrow>
          concat (map (\<lambda>task. map (\<lambda>d. (d, task)) (glob_slide fs (path_div base_path task)))
                      (selected_names name)))"

text \<open>Lines 54 to 76 for one candidate: a configuration, or nothing after a warning.\<close>

definition accept_task :: "disk \<Rightarrow> string \<times> string \<Rightarrow> task_config list" where
  "accept_task fs cand =
     (case cand of (dir, name) \<Rightarrow>
        if \<not> path_exists fs (path_div dir ''start.py'') then []
        else if \<not> path_exists fs (path_div dir ''instruction.txt'') then []
        else [\<lparr>task_name = name, task_dir = dir,
               init_code_path = path_div dir ''start.py'',
               init_image_path = path_div dir ''start.jpg'',
               target_description_path = path_div dir ''instruction.txt''\<rparr>])"

definition load_autopresent_dataset ::
  "disk \<Rightarrow> string \<Rightarrow> string \<Rightarrow> string option \<Rightarrow> task_config list" where
  "load_autopresent_dataset fs base_path name task_id =
     (if \<not> path_exists fs base_path then []
      else concat (map (accept_task fs) (task_dirs fs base_path name task_id)))"

text \<open>
  Lines 225 to 240 of \<open>main\<close>: the tasks to run, or the exit status 1 when there is none.
\<close>

definition main_tasks :: "disk \<Rightarrow> string \<Rightarrow> string \<Rightarrow> string option \<Rightarrow> nat + task_config list" where
  "main_tasks fs dataset_path task task_id =
     (let tasks = load_autopresent_dataset fs dataset_path task task_id
      in if tasks = [] then Inl 1
         else
           (let tasks = (if task \<noteq> ''all'' then filter (\<lambda>t. task_name t = task) tasks else tasks)
            in if tasks = [] then Inl 1 else Inr tasks))"

text \<open>
  A sample dataset: the category \<open>business\<close> holds the item \<open>slide_1\<close> with its three
  input files.
\<close>

definition sample_dataset :: disk where
  "sample_dataset =
     \<lparr>listdir = (\<lambda>d. if d = ''data/business'' then Some [''slide_1''] else None),
      path_exists = (\<lambda>p. p = ''data'' \<or> p = ''data/business'' \<or> p = ''data/business/slide_1''
                        \<or> p = ''data/business/slide_1/start.py''
                        \<or> p = ''data/business/slide_1/start.jpg''
                        \<or> p = ''data/business/slide_1/instruction.txt'')\<rparr>"

subsection \<open>One task\<close>

text \<open>The command line arguments that \<open>run_autopresent_task\<close> reads.\<close>

record args =
  output_dir :: string
  vision_model :: string
  max_rounds :: int
  generator_script :: string
  verifier_script :: string
  slides_server_path :: string
  image_server_path :: string

text \<open>
  What the child process does, as \<open>subprocess.run\<close> meets it: it exits by itself after
  some seconds with an exit code, it never exits, or launching it or waiting for it
  raises an exception of the host with the given text.
\<close>

datatype proc = Exits real int | Hangs | Fails string

text \<open>
  The host of a run: the module-level \<open>api_key\<close> (\<open>os.getenv\<close> gives \<open>None\<close> when the
  variable is not set), \<open>sys.executable\<close>, whether \<open>mkdir(parents=True, exist_ok=True)\<close>
  succeeds on a path, and what the process started by a command does.
\<close>

record host =
  api_key :: "string option"
  sys_executable :: string
  mkdir_ok :: "string \<Rightarrow> bool"
  process :: "string list \<Rightarrow> proc"

definition timeout_seconds :: real where
  "timeout_seconds = 3600"

text \<open>
  \<open>subprocess.run(cmd, check=True, capture_output=False, timeout=3600)\<close>: a process
  still running at the timeout is killed and TimeoutExpired is raised; a non-zero exit
  code raises CalledProcessError. The flag tells whether the process was killed.
\<close>

definition subprocess_run :: "proc \<Rightarrow> bool \<times> (error + unit)" where
  "subprocess_run p =
     (case p of
        Exits seconds code \<Rightarrow>
          if seconds < timeout_seconds
          then (False, if code = 0 then Inr () else Inl (CalledProcessError code))
          else (True, Inl TimeoutExpired)
      | Hangs \<Rightarrow> (True, Inl TimeoutExpired)
      | Fails msg \<Rightarrow> (False, Inl (OtherException msg)))"

definition task_label :: "task_config \<Rightarrow> string" where
  "task_label cfg = task_name cfg @ ''/'' @ last (str_split ''/'' (task_dir cfg))"

definition output_base :: "args \<Rightarrow> task_config \<Rightarrow> string" where
  "output_base a cfg = output_dir a @ ''/'' @ task_label cfg"

text \<open>Lines 101 to 119: the command, item by item; only the key may be \<open>None\<close>.\<close>

definition build_cmd :: "host \<Rightarrow> args \<Rightarrow> task_config \<Rightarrow> string option list" where
  "build_cmd h a cfg =
     [Some (sys_executable h), Some ''main.py'',
      Some ''--mode'', Some ''autopresent'',
      Some ''--vision-model'', Some (vision_model a),
      Some ''--api-key'', api_key h,
      Some ''--max-rounds'', Some (str_int (max_rounds a)),
      Some ''--task-name'', Some (task_name cfg),
      Some ''--init-code-path'', Some (init_code_path cfg),
      Some ''--init-image-path'', Some (init_image_path cfg),
      Some ''--target-description'', Some (target_description_path cfg),
      Some ''--generator-script'', Some (generator_script a),
      Some ''--verifier-script'', Some (verifier_script a),
      Some ''--slides-server-path'', Some (slides_server_path a),
      Some ''--output-dir'', Some (output_base a cfg),
      Some ''--image-server-path'', Some (image_server_path a)]"

text \<open>
  What a task that returns gives back: the tuple \<open>(task_name, success, error_message)\<close>,
  the last line it printed, and whether its process was killed.
\<close>

record task_result =
  returned :: "string \<times> bool \<times> string"
  printed :: string
  killed :: bool

text \<open>
  Lines 123 to 139, the \<open>try\<close> statement, given the command. \<open>str_e\<close> is Python's
  \<open>str\<close> on an exception.
\<close>

definition run_and_classify :: "(error \<Rightarrow> string) \<Rightarrow> string \<Rightarrow> proc \<Rightarrow> task_result" where
  "run_and_classify str_e label p =
     (case subprocess_run p of
        (k, Inr u) \<Rightarrow>
          \<lparr>returned = (label, True, []),
           printed = ''Task completed successfully: '' @ label, killed = k\<rparr>
      | (k, Inl (CalledProcessError code)) \<Rightarrow>
          \<lparr>returned = (label, False, str_e (CalledProcessError code)),
           printed = ''Task failed: '' @ label @ '', Error: '' @ str_e (CalledProcessError code),
           killed = k\<rparr>
      | (k, Inl TimeoutExpired) \<Rightarrow>
          \<lparr>returned = (label, False, ''Timeout''),
           printed = ''Task timed out: '' @ label, killed = k\<rparr>
      | (k, Inl e) \<Rightarrow>
          \<lparr>returned = (label, False, str_e e),
           printed = ''Task failed with exception: '' @ label @ '', Error: '' @ str_e e,
           killed = k\<rparr>)"

text \<open>
  \<open>run_autopresent_task\<close>. The output directory is made and the command is printed
  before the \<open>try\<close> statement: an exception there leaves the function. Printing the
  command evaluates \<open>' '.join(cmd)\<close>, which raises TypeError when an item of the list
  is not a string, that is when \<open>api_key\<close> is \<open>None\<close>.
\<close>

definition run_autopresent_task ::
  "(error \<Rightarrow> string) \<Rightarrow> host \<Rightarrow> args \<Rightarrow> task_config \<Rightarrow> error + task_result" where
  "run_autopresent_task str_e h a cfg =
     (if \<not> mkdir_ok h (output_base a cfg) then Inl OSError
      else case those (build_cmd h a cfg) of
        None \<Rightarrow> Inl TypeError
      | Some cmd \<Rightarrow> Inr (run_and_classify str_e (task_label cfg) (process h cmd)))"

subsection \<open>The scheduler\<close>

text \<open>The counters \<open>successful_tasks\<close>, \<open>failed_tasks\<close> and \<open>failed_task_details\<close>.\<close>

record summary =
  successful_tasks :: nat
  failed_tasks :: nat
  failed_task_details :: "(string \<times> string) list"

definition summary_init :: summary where
  "summary_init = \<lparr>successful_tasks = 0, failed_tasks = 0, failed_task_details = []\<rparr>"

text \<open>Lines 267 to 274, and 173 to 182: counting one returned tuple.\<close>

definition count_result :: "string \<times> bool \<times> string \<Rightarrow> summary \<Rightarrow> summary" where
  "count_result r s =
     (case r of (name, success, error_msg) \<Rightarrow>
        if success then s\<lparr>successful_tasks := successful_tasks s + 1\<rparr>
        else s\<lparr>failed_tasks := failed_tasks s + 1,
               failed_task_details := failed_task_details s @ [(name, error_msg)]\<rparr>)"

text \<open>
  Lines 169 to 190: one completed future. \<open>future.result()\<close> gives the task's tuple or
  raises what the task raised, which is counted as a failure.
\<close>

definition count_future ::
  "(error \<Rightarrow> string) \<Rightarrow> host \<Rightarrow> args \<Rightarrow> task_config \<Rightarrow> summary \<Rightarrow> summary" where
  "count_future str_e h a cfg s =
     (case run_autopresent_task str_e h a cfg of
        Inr res \<Rightarrow> count_result (returned res) s
      | Inl e \<Rightarrow>
          s\<lparr>failed_tasks := failed_tasks s + 1,
            failed_task_details :=
              failed_task_details s @ [(last (str_split ''/'' (task_dir cfg)), str_e e)]\<rparr>)"

text \<open>
  \<open>run_tasks_parallel\<close>. \<open>completed\<close> lists the submitted tasks in the order in which
  \<open>as_completed\<close> yields their futures: every submitted task once, in any order.
  \<open>ThreadPoolExecutor\<close> raises ValueError unless \<open>max_workers\<close> is positive.
\<close>

definition run_tasks_parallel ::
  "(error \<Rightarrow> string) \<Rightarrow> host \<Rightarrow> args \<Rightarrow> int \<Rightarrow> task_config list \<Rightarrow> error + summary" where
  "run_tasks_parallel str_e h a max_workers completed =
     (if max_workers \<le> 0 then Inl ValueError
      else Inr (fold (count_future str_e h a) completed summary_init))"

text \<open>The sequential loop of \<open>main\<close> (lines 263 to 274): an exception of a task ends it.\<close>

fun run_tasks_sequential ::
  "(error \<Rightarrow> string) \<Rightarrow> host \<Rightarrow> args \<Rightarrow> task_config list \<Rightarrow> summary \<Rightarrow> error + summary" where
  "run_tasks_sequential str_e h a [] s = Inr s"
| "run_tasks_sequential str_e h a (cfg # rest) s =
     (case run_autopresent_task str_e h a cfg of
        Inl e \<Rightarrow> Inl e
      | Inr res \<Rightarrow> run_tasks_sequential str_e h a rest (count_result (returned res) s))"

subsection \<open>Notions used to state the scheduler's properties\<close>

text \<open>A task succeeds when it returns a tuple whose flag is true.\<close>

definition succeeds :: "(error \<Rightarrow> string) \<Rightarrow> host \<Rightarrow> args \<Rightarrow> task_config \<Rightarrow> bool" where
  "succeeds str_e h a cfg =
     (case run_autopresent_task str_e h a cfg of
        Inr res \<Rightarrow> fst (snd (returned res))
      | Inl e \<Rightarrow> False)"

text \<open>Sample hosts, arguments and tasks.\<close>

definition sample_args :: args where
  "sample_args =
     \<lparr>output_dir = ''out'', vision_model = ''gpt-4o'', max_rounds = 10,
      generator_script = ''agents/generator_mcp.py'', verifier_script = ''agents/verifier_mcp.py'',
      slides_server_path = ''servers/generator/slides.py'',
      image_server_path = ''servers/verifier/image.py''\<rparr>"

definition sample_task :: "string \<Rightarrow> task_config" where
  "sample_task dir =
     \<lparr>task_name = ''business'', task_dir = ''data/business/'' @ dir,
      init_code_path = ''data/business/'' @ dir @ ''/start.py'',
      init_image_path = ''data/business/'' @ dir @ ''/start.jpg'',
      target_description_path = ''data/business/'' @ dir @ ''/instruction.txt''\<rparr>"

text \<open>
  A host with the key set on which the process of \<open>slide_1\<close> exits with 0 after a minute,
  that of \<open>slide_2\<close> exits with 1, that of \<open>slide_3\<close> never exits and that of any other
  task cannot be started.
\<close>

definition sample_host :: host where
  "sample_host =
     \<lparr>api_key = Some ''k'', sys_executable = ''python3'', mkdir_ok = (\<lambda>p. True),
      process = (\<lambda>cmd.
         if cmd ! 13 = ''data/business/slide_1/start.py'' then Exits 60 0
         else if cmd ! 13 = ''data/business/slide_2/start.py'' then Exits 60 1
         else if cmd ! 13 = ''data/business/slide_3/start.py'' then Hangs
         else Fails ''No such file or directory'')\<rparr>"

definition sample_str_e :: "error \<Rightarrow> string" where
  "sample_str_e e =
     (case e of
        CalledProcessError code \<Rightarrow> ''returned non-zero exit status '' @ str_int code
      | OtherException msg \<Rightarrow> msg
      | TypeError \<Rightarrow> ''sequence item 7: expected str instance, NoneType found''
      | _ \<Rightarrow> ''error'')"

text \<open>The same host without the key.\<close>

definition keyless_host :: host where
  "keyless_host = sample_host\<lparr>api_key := None\<rparr>"

text \<open>Four tasks as submitted, and an order in which they may complete.\<close>

definition sample_tasks :: "task_config list" where
  "sample_tasks =
     [sample_task ''slide_1'', sample_task ''slide_2'', sample_task ''slide_3'',
      sample_task ''slide_4'']"

definition sample_completed :: "task_config list" where
  "sample_completed =
     [sample_task ''slide_3'', sample_task ''slide_1'', sample_task ''slide_4'',
      sample_task ''slide_2'']"

section \<open>Properties\<close>

subsection \<open>Rounds that are passed over\<close>


lemma eval_round_no_round: "eval_round pf no_round = Inr None"
  by (simp add: eval_round_def no_round_def)

lemma scan_rounds_cong:
  "(\<And>n. n \<in> set ns \<Longrightarrow> eval_round pf (r1 n) = eval_round pf (r2 n)) \<Longrightarrow>
   scan_rounds pf r1 ns b = scan_rounds pf r2 ns b"
  by (induction ns arbitrary: b) (auto split: sum.splits option.splits)


text \<open>
  C3. A round contributes to the choice of the best round only if both of its report
  files exist. A round with one of the two files missing is passed over without reading
  the other file: no metric of it is parsed, none is set to zero, and the scan of the
  slide's rounds ends exactly as if the round's directory did not exist.
\<close>

theorem incomplete_round_excluded:
  assumes "ref_based_txt fs = None \<or> ref_free_json fs = None"
  shows "eval_round pf fs = Inr None
       \<and> scan_rounds pf (rounds(n := fs)) ns b = scan_rounds pf (rounds(n := no_round)) ns b
       \<and> find_best_round pf (rounds(n := fs)) = find_best_round pf (rounds(n := no_round))"
proof -
  have a: "eval_round pf fs = Inr None"
    using assms by (auto simp: eval_round_def split: option.splits)
  have c: "scan_rounds pf (rounds(n := fs)) ms b' = scan_rounds pf (rounds(n := no_round)) ms b'"
    for ms b'
    by (rule scan_rounds_cong) (simp add: a eval_round_no_round)
  show ?thesis using a c by (simp add: find_best_round_def)
qed

theorem incomplete_round_excluded_witness:
  "ref_free_json half_round = None
   \<and> eval_round sample_float half_round = Inr None
   \<and> find_best_round sample_float (tie_rounds(4 := half_round))
       = find_best_round sample_float (tie_rounds(4 := no_round))"
proof -
  have h: "ref_based_txt half_round = None \<or> ref_free_json half_round = None"
    by (simp add: half_round_def)
  show ?thesis
    using incomplete_round_excluded [OF h, of sample_float tie_rounds 4] h
    by (simp add: half_round_def)
qed

subsection \<open>Slides without a complete round, and the averages\<close>








subsection \<open>The score of a round\<close>





subsection \<open>Running the model on the sample inputs\<close>












subsection \<open>The choice of the best round\<close>






subsection \<open>No slide at all\<close>

text \<open>
  C10. When no slide is visited, because for every selected category the reference
  presentation is missing (or has no slide), the totals stay as initialised with
  \<open>total_num = 0\<close>, the averaging is skipped, and \<open>gather_results\<close> raises
  ZeroDivisionError at the success rate. The same holds whenever the loops end with
  \<open>total_num = 0\<close>.
\<close>

theorem gather_results_zero_items:
  assumes "\<forall>name \<in> set (selected_names slide_name).
             reference tr name = NoPptx \<or> reference tr name = Deck 0"
  shows "gather_totals pf tr slide_name = Inr totals_init
       \<and> averaged totals_init = totals_init
       \<and> success_rate totals_init = Inl ZeroDivisionError
       \<and> gather_results pf tr slide_name = Inl ZeroDivisionError
       \<and> (\<forall>pf' tr' name' t. gather_totals pf' tr' name' = Inr t \<and> total_num t = 0 \<longrightarrow>
             gather_results pf' tr' name' = Inl ZeroDivisionError)"
proof -
  have general: "\<forall>pf' tr' name' t. gather_totals pf' tr' name' = Inr t \<and> total_num t = 0 \<longrightarrow>
             gather_results pf' tr' name' = Inl ZeroDivisionError"
    by (simp add: gather_results_def averaged_def report_def success_rate_def)
  have "gather_names pf tr names t = Inr t"
    if "\<forall>name \<in> set names. reference tr name = NoPptx \<or> reference tr name = Deck 0"
    for names t
    using that by (induction names) auto
  then have "gather_totals pf tr slide_name = Inr totals_init"
    using assms by (simp add: gather_totals_def)
  then show ?thesis
    using general
    by (simp add: gather_results_def averaged_def totals_init_def report_def success_rate_def)
qed

theorem gather_results_zero_items_witness:
  "gather_totals sample_float empty_tree ''all'' = Inr totals_init
   \<and> gather_results sample_float empty_tree ''all'' = Inl ZeroDivisionError"
proof -
  have h: "\<forall>name \<in> set (selected_names ''all'').
             reference empty_tree name = NoPptx \<or> reference empty_tree name = Deck 0"
    by (simp add: empty_tree_def)
  show ?thesis
    using gather_results_zero_items [OF h, of sample_float] by simp
qed

subsection \<open>The parser of the reference-based report\<close>












subsection \<open>The report files the dispatcher writes and the aggregator reads\<close>

lemma last_os_path_join: "b \<noteq> [] \<Longrightarrow> last (os_path_join a b) = last b"
  by (simp add: os_path_join_def)

text \<open>
  C1. For the round directory \<open>1\<close> of slide 1 of \<open>business\<close> under the test id \<open>T\<close>, the
  dispatcher has the reference-based report written to the file the aggregator reads,
  \<open>ref_based.txt\<close>, but the reference-free report to \<open>ref_free.txt\<close>, while the
  aggregator looks for \<open>ref_free.json\<close>. Whatever the directories, the two
  reference-free paths differ.
\<close>

theorem ref_free_report_name_mismatch:
  "evaluate_single_slide sample_output (evaluate_slide_dirs ''T'' ''business'') 1
     = [PageEval ''data/autopresent/examples/business/slide_1/slide.pptx''
          ''output/autopresent/T/business/slide_1/1/refine.pptx'' ''1''
          ''output/autopresent/T/business/slide_1/1/ref_based.txt'',
        ReferenceFreeEval ''output/autopresent/T/business/slide_1/1/refine.jpg''
          ''output/autopresent/T/business/slide_1/1/ref_free.txt'']
   \<and> gather_ref_eval_path ''T'' ''business'' 1 1
       = ''output/autopresent/T/business/slide_1/1/ref_based.txt''
   \<and> gather_ref_free_eval_path ''T'' ''business'' 1 1
       = ''output/autopresent/T/business/slide_1/1/ref_free.json''
   \<and> (\<forall>d d'. os_path_join d ''ref_free.txt'' \<noteq> os_path_join d' ''ref_free.json'')"
proof -
  have a: "evaluate_single_slide sample_output (evaluate_slide_dirs ''T'' ''business'') 1
     = [PageEval ''data/autopresent/examples/business/slide_1/slide.pptx''
          ''output/autopresent/T/business/slide_1/1/refine.pptx'' ''1''
          ''output/autopresent/T/business/slide_1/1/ref_based.txt'',
        ReferenceFreeEval ''output/autopresent/T/business/slide_1/1/refine.jpg''
          ''output/autopresent/T/business/slide_1/1/ref_free.txt'']"
    by (simp add: evaluate_single_slide_def evaluate_slide_dirs_def sample_output_def
        round_commands_def str_split_def path_div_def digit_char_def str_isdigit_def
        digit_of_def os_path_join_def os_path_dirname_def rstrip_slash_def Let_def)
  have b: "gather_ref_eval_path ''T'' ''business'' 1 1
       = ''output/autopresent/T/business/slide_1/1/ref_based.txt''"
    by (simp add: gather_ref_eval_path_def gather_round_dir_def os_path_join_def digit_char_def)
  have c: "gather_ref_free_eval_path ''T'' ''business'' 1 1
       = ''output/autopresent/T/business/slide_1/1/ref_free.json''"
    by (simp add: gather_ref_free_eval_path_def gather_round_dir_def os_path_join_def
        digit_char_def)
  have d: "os_path_join d ''ref_free.txt'' \<noteq> os_path_join d' ''ref_free.json''" for d d'
  proof
    assume "os_path_join d ''ref_free.txt'' = os_path_join d' ''ref_free.json''"
    then have "last (os_path_join d ''ref_free.txt'') = last (os_path_join d' ''ref_free.json'')"
      by simp
    then show False by (simp add: last_os_path_join)
  qed
  show ?thesis
    by (intro conjI allI) (rule a b c d)+
qed

subsection \<open>The directory of a single item\<close>

text \<open>
  C9. With an item identifier the loader takes one candidate directory without listing
  anything, named \<open>slides_<id>\<close>. In the sample dataset the enumeration finds the item
  \<open>slide_1\<close>, and asking for the item \<open>1\<close> looks at \<open>slides_1\<close>, finds nothing, and the
  run ends with the exit status 1. No identifier makes the candidate's name
  \<open>slide_<id>\<close>.
\<close>

theorem task_id_directory_mismatch:
  "(\<forall>fs base name tid. task_dirs fs base name (Some tid)
       = [(path_div (path_div base name) (''slides_'' @ tid), name)])
   \<and> load_autopresent_dataset sample_dataset ''data'' ''business'' None
       = [\<lparr>task_name = ''business'', task_dir = ''data/business/slide_1'',
           init_code_path = ''data/business/slide_1/start.py'',
           init_image_path = ''data/business/slide_1/start.jpg'',
           target_description_path = ''data/business/slide_1/instruction.txt''\<rparr>]
   \<and> task_dirs sample_dataset ''data'' ''business'' (Some ''1'')
       = [(''data/business/slides_1'', ''business'')]
   \<and> load_autopresent_dataset sample_dataset ''data'' ''business'' (Some ''1'') = []
   \<and> main_tasks sample_dataset ''data'' ''business'' (Some ''1'') = Inl 1
   \<and> (\<forall>tid. ''slides_'' @ tid \<noteq> ''slide_'' @ tid)"
  by (simp add: main_tasks_def load_autopresent_dataset_def sample_dataset_def task_dirs_def
      glob_slide_def selected_names_def accept_task_def path_div_def)

subsection \<open>The outcome of one task\<close>

lemma those_build_cmd:
  "api_key h = Some key \<Longrightarrow> \<exists>cmd. those (build_cmd h a cfg) = Some cmd"
  by (simp add: build_cmd_def)

lemma those_build_cmd_None: "api_key h = None \<Longrightarrow> those (build_cmd h a cfg) = None"
  by (simp add: build_cmd_def)

text \<open>A task returns exactly when its output directory is made and the key is set.\<close>

lemma run_returns_iff:
  "(\<exists>res. run_autopresent_task str_e h a cfg = Inr res)
   = (mkdir_ok h (output_base a cfg) \<and> api_key h \<noteq> None)"
proof (cases "api_key h")
  case None
  then show ?thesis
    by (simp add: run_autopresent_task_def those_build_cmd_None)
next
  case (Some key)
  from those_build_cmd [OF this, of a cfg] obtain cmd where
    "those (build_cmd h a cfg) = Some cmd" by blast
  then show ?thesis using Some
    by (simp add: run_autopresent_task_def)
qed

text \<open>
  C7, as the code has it. When the output directory of the task is made and the API key
  is set, the task returns, with exactly one of four outcomes decided by its process: an
  exit with code 0 before the 3600 seconds are over gives the success tuple; a non-zero
  exit code gives a failure with the text of the CalledProcessError; a process still
  running at 3600 seconds is killed and gives the failure \<open>Timeout\<close>; an exception of
  the host while starting or waiting gives a failure with the text of the exception.
\<close>

theorem task_outcome_classified:
  assumes "mkdir_ok h (output_base a cfg)" and "api_key h = Some key"
  shows "\<exists>cmd. those (build_cmd h a cfg) = Some cmd \<and>
     run_autopresent_task str_e h a cfg = Inr
       (case process h cmd of
          Exits seconds code \<Rightarrow>
            if seconds < 3600 then
              if code = 0 then
                \<lparr>returned = (task_label cfg, True, []),
                 printed = ''Task completed successfully: '' @ task_label cfg, killed = False\<rparr>
              else
                \<lparr>returned = (task_label cfg, False, str_e (CalledProcessError code)),
                 printed = ''Task failed: '' @ task_label cfg @ '', Error: ''
                             @ str_e (CalledProcessError code),
                 killed = False\<rparr>
            else
              \<lparr>returned = (task_label cfg, False, ''Timeout''),
               printed = ''Task timed out: '' @ task_label cfg, killed = True\<rparr>
        | Hangs \<Rightarrow>
            \<lparr>returned = (task_label cfg, False, ''Timeout''),
             printed = ''Task timed out: '' @ task_label cfg, killed = True\<rparr>
        | Fails msg \<Rightarrow>
            \<lparr>returned = (task_label cfg, False, str_e (OtherException msg)),
             printed = ''Task failed with exception: '' @ task_label cfg @ '', Error: ''
                         @ str_e (OtherException msg),
             killed = False\<rparr>)"
proof -
  from those_build_cmd [OF assms(2), of a cfg] obtain cmd where
    c: "those (build_cmd h a cfg) = Some cmd" by blast
  have "run_autopresent_task str_e h a cfg
          = Inr (run_and_classify str_e (task_label cfg) (process h cmd))"
    using assms(1) c by (simp add: run_autopresent_task_def)
  then show ?thesis
    using c
    by (auto simp: run_and_classify_def subprocess_run_def timeout_seconds_def split: proc.splits)
qed

lemmas runner_sample_defs =
  sample_host_def sample_args_def sample_task_def sample_str_e_def build_cmd_def
  task_label_def output_base_def str_split_def str_int_def digit_char_def

lemma sample_mkdir: "mkdir_ok sample_host p"
  by (simp add: sample_host_def)

lemma sample_key: "api_key sample_host = Some ''k''"
  by (simp add: sample_host_def)

text \<open>The four sample tasks: success, non-zero exit, timeout and exception.\<close>

theorem task_outcome_classified_witness:
  "run_autopresent_task sample_str_e sample_host sample_args (sample_task ''slide_1'')
     = Inr \<lparr>returned = (''business/slide_1'', True, []),
            printed = ''Task completed successfully: business/slide_1'', killed = False\<rparr>
   \<and> run_autopresent_task sample_str_e sample_host sample_args (sample_task ''slide_2'')
     = Inr \<lparr>returned = (''business/slide_2'', False, ''returned non-zero exit status 1''),
            printed = ''Task failed: business/slide_2, Error: returned non-zero exit status 1'',
            killed = False\<rparr>
   \<and> run_autopresent_task sample_str_e sample_host sample_args (sample_task ''slide_3'')
     = Inr \<lparr>returned = (''business/slide_3'', False, ''Timeout''),
            printed = ''Task timed out: business/slide_3'', killed = True\<rparr>
   \<and> run_autopresent_task sample_str_e sample_host sample_args (sample_task ''slide_4'')
     = Inr \<lparr>returned = (''business/slide_4'', False, ''No such file or directory''),
            printed = ''Task failed with exception: business/slide_4, Error: No such file or directory'',
            killed = False\<rparr>"
proof -
  have 1: "run_autopresent_task sample_str_e sample_host sample_args (sample_task ''slide_1'')
     = Inr \<lparr>returned = (''business/slide_1'', True, []),
            printed = ''Task completed successfully: business/slide_1'', killed = False\<rparr>"
    using task_outcome_classified [OF sample_mkdir sample_key,
            of sample_args "sample_task ''slide_1''" sample_str_e]
    by (simp add: runner_sample_defs)
  have 2: "run_autopresent_task sample_str_e sample_host sample_args (sample_task ''slide_2'')
     = Inr \<lparr>returned = (''business/slide_2'', False, ''returned non-zero exit status 1''),
            printed = ''Task failed: business/slide_2, Error: returned non-zero exit status 1'',
            killed = False\<rparr>"
    using task_outcome_classified [OF sample_mkdir sample_key,
            of sample_args "sample_task ''slide_2''" sample_str_e]
    by (simp add: runner_sample_defs)
  have 3: "run_autopresent_task sample_str_e sample_host sample_args (sample_task ''slide_3'')
     = Inr \<lparr>returned = (''business/slide_3'', False, ''Timeout''),
            printed = ''Task timed out: business/slide_3'', killed = True\<rparr>"
    using task_outcome_classified [OF sample_mkdir sample_key,
            of sample_args "sample_task ''slide_3''" sample_str_e]
    by (simp add: runner_sample_defs)
  have 4: "run_autopresent_task sample_str_e sample_host sample_args (sample_task ''slide_4'')
     = Inr \<lparr>returned = (''business/slide_4'', False, ''No such file or directory''),
            printed = ''Task failed with exception: business/slide_4, Error: No such file or directory'',
            killed = False\<rparr>"
    using task_outcome_classified [OF sample_mkdir sample_key,
            of sample_args "sample_task ''slide_4''" sample_str_e]
    by (simp add: runner_sample_defs)
  show ?thesis
    by (intro conjI) (rule 1 2 3 4)+
qed

text \<open>
  As stated for every dispatched task, the claim fails: without the API key the task
  raises TypeError before its process is started, and returns nothing.
\<close>

theorem task_outcome_counterexample:
  "\<not> (\<forall>str_e h a cfg. \<exists>res. run_autopresent_task str_e h a cfg = Inr res)"
proof
  assume "\<forall>str_e h a cfg. \<exists>res. run_autopresent_task str_e h a cfg = Inr res"
  then have "\<exists>res. run_autopresent_task sample_str_e keyless_host sample_args
                     (sample_task ''slide_1'') = Inr res"
    by (elim allE)
  then show False
    unfolding run_returns_iff by (simp add: keyless_host_def)
qed

lemma keyless_task_raises:
  "run_autopresent_task sample_str_e keyless_host sample_args (sample_task ''slide_1'')
   = Inl TypeError"
  by (simp add: run_autopresent_task_def keyless_host_def sample_host_def build_cmd_def)

subsection \<open>The counts of the scheduler\<close>

lemma count_result_counts:
  "successful_tasks (count_result r s) = successful_tasks s + (if fst (snd r) then 1 else 0)
 \<and> failed_tasks (count_result r s) = failed_tasks s + (if fst (snd r) then 0 else 1)
 \<and> length (failed_task_details (count_result r s))
     = length (failed_task_details s) + (if fst (snd r) then 0 else 1)"
  by (cases r) (simp add: count_result_def)

lemma count_future_counts:
  "successful_tasks (count_future str_e h a cfg s)
     = successful_tasks s + (if succeeds str_e h a cfg then 1 else 0)
 \<and> failed_tasks (count_future str_e h a cfg s)
     = failed_tasks s + (if succeeds str_e h a cfg then 0 else 1)
 \<and> length (failed_task_details (count_future str_e h a cfg s))
     = length (failed_task_details s) + (if succeeds str_e h a cfg then 0 else 1)"
  by (cases "run_autopresent_task str_e h a cfg")
     (simp_all add: count_future_def succeeds_def count_result_counts)

lemma fold_count_future:
  "successful_tasks (fold (count_future str_e h a) cs s)
     = successful_tasks s + length (filter (succeeds str_e h a) cs)
 \<and> failed_tasks (fold (count_future str_e h a) cs s)
     = failed_tasks s + length (filter (\<lambda>c. \<not> succeeds str_e h a c) cs)
 \<and> length (failed_task_details (fold (count_future str_e h a) cs s))
     = length (failed_task_details s) + length (filter (\<lambda>c. \<not> succeeds str_e h a c) cs)"
  by (induction cs arbitrary: s) (simp_all add: count_future_counts)

lemma sequential_counts:
  "run_tasks_sequential str_e h a cs s = Inr s' \<Longrightarrow>
   successful_tasks s' = successful_tasks s + length (filter (succeeds str_e h a) cs)
 \<and> failed_tasks s' = failed_tasks s + length (filter (\<lambda>c. \<not> succeeds str_e h a c) cs)
 \<and> length (failed_task_details s')
     = length (failed_task_details s) + length (filter (\<lambda>c. \<not> succeeds str_e h a c) cs)"
proof (induction cs arbitrary: s)
  case Nil
  then show ?case by simp
next
  case (Cons c cs)
  then obtain res where r: "run_autopresent_task str_e h a c = Inr res"
    and rest: "run_tasks_sequential str_e h a cs (count_result (returned res) s) = Inr s'"
    by (auto split: sum.splits)
  have "succeeds str_e h a c = fst (snd (returned res))"
    using r by (simp add: succeeds_def)
  then show ?case
    using Cons.IH [OF rest] by (simp add: count_result_counts)
qed

lemma sequential_returns:
  "(\<forall>c \<in> set cs. \<exists>res. run_autopresent_task str_e h a c = Inr res) \<Longrightarrow>
   \<exists>s'. run_tasks_sequential str_e h a cs s = Inr s'"
  by (induction cs arbitrary: s) auto

lemma length_filter_perm:
  "mset xs = mset ys \<Longrightarrow> length (filter P xs) = length (filter P ys)"
  by (metis mset_filter size_mset)

lemma filter_split_length:
  "length (filter P xs) + length (filter (\<lambda>x. \<not> P x) xs) = length xs"
  by (induction xs) auto

text \<open>
  C8. Let \<open>completed\<close> be the submitted tasks in their order of completion. Whenever the
  parallel scheduler returns its counts, and whenever the sequential loop does, the
  success count is the number of tasks that returned a success, the failure count is
  the number of all other tasks (one detail entry each), and the two add up to the
  number of tasks. The parallel scheduler returns its counts whenever the number of
  workers is positive, since an exception of a task is counted there as a failure; the
  sequential loop returns them whenever every output directory is made and the API key
  is set.
\<close>

theorem counts_add_up:
  assumes "mset completed = mset tasks"
  shows "(\<forall>s. run_tasks_parallel str_e h a max_workers completed = Inr s \<longrightarrow>
            successful_tasks s = length (filter (succeeds str_e h a) tasks)
          \<and> failed_tasks s = length (filter (\<lambda>c. \<not> succeeds str_e h a c) tasks)
          \<and> length (failed_task_details s) = failed_tasks s
          \<and> successful_tasks s + failed_tasks s = length tasks)
       \<and> (0 < max_workers \<longrightarrow>
            (\<exists>s. run_tasks_parallel str_e h a max_workers completed = Inr s))
       \<and> (\<forall>s. run_tasks_sequential str_e h a tasks summary_init = Inr s \<longrightarrow>
            successful_tasks s = length (filter (succeeds str_e h a) tasks)
          \<and> failed_tasks s = length (filter (\<lambda>c. \<not> succeeds str_e h a c) tasks)
          \<and> length (failed_task_details s) = failed_tasks s
          \<and> successful_tasks s + failed_tasks s = length tasks)
       \<and> (api_key h \<noteq> None \<and> (\<forall>cfg \<in> set tasks. mkdir_ok h (output_base a cfg)) \<longrightarrow>
            (\<exists>s. run_tasks_sequential str_e h a tasks summary_init = Inr s))"
proof -
  have par: "successful_tasks s = length (filter (succeeds str_e h a) tasks)
          \<and> failed_tasks s = length (filter (\<lambda>c. \<not> succeeds str_e h a c) tasks)
          \<and> length (failed_task_details s) = failed_tasks s
          \<and> successful_tasks s + failed_tasks s = length tasks"
    if "run_tasks_parallel str_e h a max_workers completed = Inr s" for s
  proof -
    from that have s: "s = fold (count_future str_e h a) completed summary_init"
      by (simp add: run_tasks_parallel_def split: if_splits)
    show ?thesis
      unfolding s
      using fold_count_future [of str_e h a completed summary_init]
        length_filter_perm [OF assms, of "succeeds str_e h a"]
        length_filter_perm [OF assms, of "\<lambda>c. \<not> succeeds str_e h a c"]
        filter_split_length [of "succeeds str_e h a" tasks]
      by (simp add: summary_init_def)
  qed
  have par_ret: "\<exists>s. run_tasks_parallel str_e h a max_workers completed = Inr s"
    if "0 < max_workers"
    using that by (simp add: run_tasks_parallel_def)
  have seq: "successful_tasks s = length (filter (succeeds str_e h a) tasks)
          \<and> failed_tasks s = length (filter (\<lambda>c. \<not> succeeds str_e h a c) tasks)
          \<and> length (failed_task_details s) = failed_tasks s
          \<and> successful_tasks s + failed_tasks s = length tasks"
    if "run_tasks_sequential str_e h a tasks summary_init = Inr s" for s
    using sequential_counts [OF that] filter_split_length [of "succeeds str_e h a" tasks]
    by (simp add: summary_init_def)
  have seq_ret: "\<exists>s. run_tasks_sequential str_e h a tasks summary_init = Inr s"
    if "api_key h \<noteq> None \<and> (\<forall>cfg \<in> set tasks. mkdir_ok h (output_base a cfg))"
    using that run_returns_iff [of str_e h a] by (intro sequential_returns) simp
  show ?thesis
    using par par_ret seq seq_ret by (intro conjI allI impI) blast+
qed

lemma sample_succeeds:
  "succeeds sample_str_e sample_host sample_args (sample_task ''slide_1'')"
  "\<not> succeeds sample_str_e sample_host sample_args (sample_task ''slide_2'')"
  "\<not> succeeds sample_str_e sample_host sample_args (sample_task ''slide_3'')"
  "\<not> succeeds sample_str_e sample_host sample_args (sample_task ''slide_4'')"
  by (simp_all add: succeeds_def run_autopresent_task_def run_and_classify_def
      subprocess_run_def timeout_seconds_def runner_sample_defs)

lemma sample_counts:
  "length (filter (succeeds sample_str_e sample_host sample_args) sample_tasks) = 1"
  "length (filter (\<lambda>c. \<not> succeeds sample_str_e sample_host sample_args c) sample_tasks) = 3"
  by (simp_all add: sample_tasks_def sample_succeeds)

lemma sample_completed_perm: "mset sample_completed = mset sample_tasks"
  by (simp add: sample_completed_def sample_tasks_def)

theorem counts_add_up_witness:
  "(\<exists>s. run_tasks_parallel sample_str_e sample_host sample_args 10 sample_completed = Inr s
        \<and> successful_tasks s = 1 \<and> failed_tasks s = 3
        \<and> successful_tasks s + failed_tasks s = length sample_tasks)
   \<and> (\<exists>s. run_tasks_sequential sample_str_e sample_host sample_args sample_tasks summary_init
            = Inr s
        \<and> successful_tasks s = 1 \<and> failed_tasks s = 3
        \<and> successful_tasks s + failed_tasks s = length sample_tasks)"
proof -
  note c = counts_add_up [OF sample_completed_perm,
             of sample_str_e sample_host sample_args 10]
  have "(0::int) < 10" by simp
  with c obtain sp where
    sp: "run_tasks_parallel sample_str_e sample_host sample_args 10 sample_completed = Inr sp"
    by blast
  have "api_key sample_host \<noteq> None
        \<and> (\<forall>cfg \<in> set sample_tasks. mkdir_ok sample_host (output_base sample_args cfg))"
    by (simp add: sample_key sample_mkdir)
  with c obtain sq where
    sq: "run_tasks_sequential sample_str_e sample_host sample_args sample_tasks summary_init
           = Inr sq"
    by blast
  from c sp have "successful_tasks sp = 1 \<and> failed_tasks sp = 3
        \<and> successful_tasks sp + failed_tasks sp = length sample_tasks"
    unfolding sample_counts by blast
  moreover from c sq have "successful_tasks sq = 1 \<and> failed_tasks sq = 3
        \<and> successful_tasks sq + failed_tasks sq = length sample_tasks"
    unfolding sample_counts by blast
  ultimately show ?thesis
    using sp sq by blast
qed

end
